theory Spec2Isabelle
  imports Main
begin

section \<open>JavaScript values\<close>

text \<open>
  The service reads provider payloads typed \<^verbatim>\<open>any\<close>, so the model keeps the
  run-time values of JavaScript as a datatype. Numbers are the integer-valued doubles
  (view counters and durations in seconds), exact up to a magnitude of \<open>2 ^ 53\<close>;
  fractional numbers, \<^verbatim>\<open>NaN\<close> and the infinities are outside the model. Strings
  are taken over ASCII, where a \<^typ>\<open>char\<close> is one UTF-16 code unit. An object is
  the list of its own properties, the first entry of a name being the one read.
\<close>

datatype jsval =
    JUndefined
  | JNull
  | JBool bool
  | JNum int
  | JStr string
  | JArr "jsval list"
  | JObj "(string \<times> jsval) list"

text \<open>What a \<^verbatim>\<open>throw\<close> carries: \<^verbatim>\<open>new Error(message)\<close>, the
  \<^verbatim>\<open>TypeError\<close> of the engine, the rejection of a network call and the
  rejection of \<^verbatim>\<open>res.json()\<close> on a body that is not JSON.\<close>

datatype error =
    Error string
  | TypeError
  | NetworkFailure
  | SyntaxError

text \<open>ToBoolean, as \<^verbatim>\<open>!x\<close>, \<^verbatim>\<open>x ? a : b\<close> and \<^verbatim>\<open>x || y\<close> use it.\<close>

fun truthy :: "jsval \<Rightarrow> bool" where
  "truthy JUndefined = False"
| "truthy JNull = False"
| "truthy (JBool b) = b"
| "truthy (JNum n) = (n \<noteq> 0)"
| "truthy (JStr s) = (s \<noteq> [])"
| "truthy (JArr xs) = True"
| "truthy (JObj kvs) = True"

text \<open>\<^verbatim>\<open>a || b\<close> on values whose evaluation cannot throw.\<close>

definition jsOr :: "jsval \<Rightarrow> jsval \<Rightarrow> jsval" where
  "jsOr a b = (if truthy a then a else b)"

text \<open>
  Property read. \<open>propOf v k\<close> is the own property \<open>k\<close> of an object and
  \<^verbatim>\<open>undefined\<close> on every other value: what \<^verbatim>\<open>v.k\<close> gives when \<open>v\<close> is
  neither \<^verbatim>\<open>undefined\<close> nor \<^verbatim>\<open>null\<close>, and what \<^verbatim>\<open>v?.k\<close> gives on every
  \<open>v\<close>. \<open>getProp\<close> is \<^verbatim>\<open>v.k\<close> with its TypeError. None of the names the
  service reads is a property of a prototype.
\<close>

definition isNullish :: "jsval \<Rightarrow> bool" where
  "isNullish v = (v = JUndefined \<or> v = JNull)"

fun propOf :: "jsval \<Rightarrow> string \<Rightarrow> jsval" where
  "propOf (JObj kvs) k = (case map_of kvs k of Some v \<Rightarrow> v | None \<Rightarrow> JUndefined)"
| "propOf v k = JUndefined"

definition getProp :: "jsval \<Rightarrow> string \<Rightarrow> error + jsval" where
  "getProp v k = (if isNullish v then Inl TypeError else Inr (propOf v k))"

text \<open>Sequencing of computations that may throw: the first throw ends the block.\<close>

definition bindE :: "error + 'a \<Rightarrow> ('a \<Rightarrow> error + 'b) \<Rightarrow> error + 'b" where
  "bindE r f = (case r of Inl e \<Rightarrow> Inl e | Inr x \<Rightarrow> f x)"

fun mapE :: "('a \<Rightarrow> error + 'b) \<Rightarrow> 'a list \<Rightarrow> error + 'b list" where
  "mapE f [] = Inr []"
| "mapE f (x # xs) = bindE (f x) (\<lambda>y. bindE (mapE f xs) (\<lambda>ys. Inr (y # ys)))"

fun filterE :: "('a \<Rightarrow> error + bool) \<Rightarrow> 'a list \<Rightarrow> error + 'a list" where
  "filterE p [] = Inr []"
| "filterE p (x # xs) =
     bindE (p x) (\<lambda>b. bindE (filterE p xs) (\<lambda>ys. Inr (if b then x # ys else ys)))"

text \<open>\<^verbatim>\<open>xs.find(p)\<close>: the first element \<open>p\<close> accepts, \<^verbatim>\<open>undefined\<close> when there
  is none; \<open>p\<close> runs on the elements up to that one only.\<close>

fun findE :: "(jsval \<Rightarrow> error + bool) \<Rightarrow> jsval list \<Rightarrow> error + jsval" where
  "findE p [] = Inr JUndefined"
| "findE p (x # xs) = bindE (p x) (\<lambda>b. if b then Inr x else findE p xs)"

text \<open>The array methods called on a value typed \<^verbatim>\<open>any\<close>: a TypeError unless the
  value is an array (a JSON value holds no function).\<close>

definition jsMap :: "(jsval \<Rightarrow> error + 'b) \<Rightarrow> jsval \<Rightarrow> error + 'b list" where
  "jsMap f v = (case v of JArr xs \<Rightarrow> mapE f xs | _ \<Rightarrow> Inl TypeError)"

definition jsFilter :: "(jsval \<Rightarrow> error + bool) \<Rightarrow> jsval \<Rightarrow> error + jsval list" where
  "jsFilter p v = (case v of JArr xs \<Rightarrow> filterE p xs | _ \<Rightarrow> Inl TypeError)"

definition jsFind :: "(jsval \<Rightarrow> error + bool) \<Rightarrow> jsval \<Rightarrow> error + jsval" where
  "jsFind p v = (case v of JArr xs \<Rightarrow> findE p xs | _ \<Rightarrow> Inl TypeError)"

section \<open>Strings\<close>

definition digitChars :: string where
  "digitChars = ''0123456789''"

function showNat :: "nat \<Rightarrow> string" where
  "showNat n = (if n < 10 then [digitChars ! n] else showNat (n div 10) @ [digitChars ! (n mod 10)])"
  by pat_completeness auto
termination
  by (relation "measure (\<lambda>n. n)") auto

declare showNat.simps [simp del]

text \<open>Number.prototype.toString on an integer-valued double below \<open>10 ^ 21\<close>.\<close>

definition showInt :: "int \<Rightarrow> string" where
  "showInt i = (if i < 0 then CHR ''-'' # showNat (nat (- i)) else showNat (nat i))"

text \<open>\<^verbatim>\<open>s.padStart(2, '0')\<close>.\<close>

definition padStart2 :: "string \<Rightarrow> string" where
  "padStart2 s = replicate (2 - length s) (CHR ''0'') @ s"

fun startsWith :: "string \<Rightarrow> string \<Rightarrow> bool" where
  "startsWith s [] = True"
| "startsWith [] (c # t) = False"
| "startsWith (a # s) (c # t) = (a = c \<and> startsWith s t)"

text \<open>\<^verbatim>\<open>s.includes(t)\<close>: \<open>t\<close> occurs in \<open>s\<close> as a contiguous run.\<close>

fun includes_str :: "string \<Rightarrow> string \<Rightarrow> bool" where
  "includes_str [] t = (t = [])"
| "includes_str (a # s) t = (startsWith (a # s) t \<or> includes_str s t)"

text \<open>\<^verbatim>\<open>toLowerCase\<close> on ASCII: the 26 capital letters change, nothing else does.\<close>

definition lowerChar :: "char \<Rightarrow> char" where
  "lowerChar c =
     (case map_of (zip ''ABCDEFGHIJKLMNOPQRSTUVWXYZ'' ''abcdefghijklmnopqrstuvwxyz'') c of
        Some l \<Rightarrow> l
      | None \<Rightarrow> c)"

definition toLowerCase :: "string \<Rightarrow> string" where
  "toLowerCase s = map lowerChar s"

text \<open>\<^verbatim>\<open>s.split(sep)\<close> for a non-empty separator; \<open>acc\<close> is the piece being read,
  reversed.\<close>

function splitAcc :: "string \<Rightarrow> string \<Rightarrow> string \<Rightarrow> string list" where
  "splitAcc sep acc s =
     (if s = [] then [rev acc]
      else if sep \<noteq> [] \<and> startsWith s sep then rev acc # splitAcc sep [] (drop (length sep) s)
      else splitAcc sep (hd s # acc) (tl s))"
  by pat_completeness auto
termination
  by (relation "measure (\<lambda>(sep, acc, s). length s)") auto

declare splitAcc.simps [simp del]

definition split_str :: "string \<Rightarrow> string \<Rightarrow> string list" where
  "split_str s sep = splitAcc sep [] s"

text \<open>Index read \<^verbatim>\<open>xs[i]\<close> on an array of strings: \<^verbatim>\<open>undefined\<close> out of range.\<close>

definition strAt :: "string list \<Rightarrow> nat \<Rightarrow> jsval" where
  "strAt xs i = (if i < length xs then JStr (xs ! i) else JUndefined)"

section \<open>Number formatting\<close>

text \<open>
  \<^verbatim>\<open>a / b\<close> of two doubles is the double nearest to the quotient, ties to the even
  mantissa. For integers \<open>0 < b \<le> a\<close> with a quotient below \<open>2 ^ 53\<close> the result is
  \<open>m / 2 ^ s\<close> with a mantissa \<open>m\<close> of 53 bits; \<open>fdiv\<close> returns \<open>(m, s)\<close>.
\<close>

function log2floor :: "nat \<Rightarrow> nat" where
  "log2floor n = (if n < 2 then 0 else Suc (log2floor (n div 2)))"
  by pat_completeness auto
termination
  by (relation "measure (\<lambda>n. n)") auto

declare log2floor.simps [simp del]

definition roundHalfEven :: "int \<Rightarrow> int \<Rightarrow> int" where
  "roundHalfEven a b =
     (let q = a div b; r = a mod b
      in if 2 * r < b then q else if b < 2 * r then q + 1 else if even q then q else q + 1)"

definition fdiv :: "int \<Rightarrow> int \<Rightarrow> int \<times> nat" where
  "fdiv a b = (let s = 52 - log2floor (nat (a div b)) in (roundHalfEven (a * 2 ^ s) b, s))"

text \<open>
  \<^verbatim>\<open>x.toFixed(1)\<close> for a double \<open>x = m / 2 ^ s\<close> with \<open>1 \<le> x\<close>: the integer \<open>n\<close>
  nearest to \<open>10 * x\<close>, the larger one of two, printed with one decimal.
\<close>

definition toFixed1 :: "int \<times> nat \<Rightarrow> string" where
  "toFixed1 x = (case x of (m, s) \<Rightarrow>
     (let n = (20 * m + 2 ^ s) div 2 ^ (s + 1)
      in showInt (n div 10) @ ''.'' @ showInt (n mod 10)))"

text \<open>JavaScript's \<^verbatim>\<open>a % b\<close> on integers: the remainder has the sign of \<open>a\<close>.\<close>

definition jsRem :: "int \<Rightarrow> int \<Rightarrow> int" where
  "jsRem a b = sgn a * (\<bar>a\<bar> mod \<bar>b\<bar>)"

section \<open>The environment\<close>

text \<open>
  The network calls the service makes, and the timers it sets, in the order they
  happen. \<open>CapacitorGet\<close> is \<^verbatim>\<open>CapacitorHttp.get\<close> (always sent with the fixed
  mobile-browser \<^verbatim>\<open>User-Agent\<close>), \<open>Fetch\<close> the browser's \<^verbatim>\<open>fetch\<close>.
\<close>

datatype event =
    CapacitorGet string
  | Fetch string
  | SetTimeout nat

text \<open>A reply of the native plugin: a rejection, or a status and the decoded data.\<close>

datatype native_reply =
    GetRejects error
  | GetResolves int jsval

text \<open>A reply to \<^verbatim>\<open>fetch\<close>: a rejection, or a status and what \<^verbatim>\<open>res.json()\<close>
  gives (\<open>None\<close> when it rejects); \<^verbatim>\<open>res.ok\<close> is a status from 200 to 299.\<close>

datatype fetch_reply =
    FetchRejects error
  | FetchResolves int "jsval option"

text \<open>
  Everything outside the module. The two network functions answer a URL given the
  events so far, so that a mirror may answer differently at each call.
  \<open>isNativePlatform\<close> is \<^verbatim>\<open>Capacitor.isNativePlatform()\<close>; \<open>capacitorHttp\<close> says
  whether \<^verbatim>\<open>window.Capacitor?.Plugins?.CapacitorHttp\<close> is there.
  \<open>toLocaleDateString\<close> is \<^verbatim>\<open>new Date(x).toLocaleDateString()\<close>, which depends on
  the locale of the host.

  Both formatters are declared on \<^verbatim>\<open>number\<close> and called on values typed
  \<^verbatim>\<open>any\<close>. On a number they are defined below as the source computes them. What
  the comparisons, the arithmetic and \<^verbatim>\<open>toString\<close> of ECMAScript make of a truthy
  value that is not a number (a string, \<^verbatim>\<open>true\<close>, an array, an object) is a
  parameter: \<open>coerceViews\<close> and \<open>coerceDuration\<close>, which may throw.
\<close>

record env =
  isNativePlatform :: bool
  capacitorHttp :: bool
  capacitorGet :: "event list \<Rightarrow> string \<Rightarrow> native_reply"
  fetch :: "event list \<Rightarrow> string \<Rightarrow> fetch_reply"
  toLocaleDateString :: "jsval \<Rightarrow> error + string"
  coerceViews :: "jsval \<Rightarrow> error + string"
  coerceDuration :: "jsval \<Rightarrow> error + string"

text \<open>The module's state, \<^verbatim>\<open>activeInstanceIndex\<close>, and the events so far.\<close>

record world =
  activeInstanceIndex :: nat
  trace :: "event list"

definition emit :: "event \<Rightarrow> world \<Rightarrow> world" where
  "emit ev w = w\<lparr>trace := trace w @ [ev]\<rparr>"

section \<open>The formatters\<close>

text \<open>
  \<^verbatim>\<open>!views\<close> is true of \<^verbatim>\<open>undefined\<close>, \<^verbatim>\<open>null\<close>, \<open>0\<close>, \<^verbatim>\<open>false\<close> and
  the empty string.
\<close>

definition formatViews :: "env \<Rightarrow> jsval \<Rightarrow> error + string" where
  "formatViews env views =
     (if \<not> truthy views then Inr ''0''
      else case views of
        JNum n \<Rightarrow>
          Inr (if n \<ge> 1000000 then toFixed1 (fdiv n 1000000) @ ''M''
               else if n \<ge> 1000 then toFixed1 (fdiv n 1000) @ ''K''
               else showInt n)
      | _ \<Rightarrow> coerceViews env views)"

definition formatDuration :: "env \<Rightarrow> jsval \<Rightarrow> error + string" where
  "formatDuration env seconds =
     (if \<not> truthy seconds then Inr ''00:00''
      else case seconds of
        JNum n \<Rightarrow>
          Inr (let h = n div 3600;
                   m = jsRem n 3600 div 60;
                   s = jsRem n 60
               in if h > 0
                  then showInt h @ '':'' @ padStart2 (showInt m) @ '':'' @ padStart2 (showInt s)
                  else showInt m @ '':'' @ padStart2 (showInt s))
      | _ \<Rightarrow> coerceDuration env seconds)"

section \<open>Transport\<close>

definition CORS_PROXY :: string where
  "CORS_PROXY = ''https://cors-anywhere.herokuapp.com/''"

text \<open>
  One \<^verbatim>\<open>fetch(u)\<close> with the test of \<^verbatim>\<open>res.ok\<close> and \<^verbatim>\<open>res.json()\<close>: the decoded
  body when the request resolves with a status from 200 to 299 and a body that decodes,
  \<open>None\<close> on every other reply.
\<close>

definition fetchJson :: "env \<Rightarrow> string \<Rightarrow> world \<Rightarrow> jsval option \<times> world" where
  "fetchJson env u w =
     (case fetch env (trace w) u of
        FetchRejects e \<Rightarrow> (None, emit (Fetch u) w)
      | FetchResolves status body \<Rightarrow>
          (if 200 \<le> status \<and> status < 300 then body else None, emit (Fetch u) w))"

text \<open>
  \<open>nativeFetch\<close>: through the plugin when the platform is native and the plugin is
  there, and then every failure is thrown again; otherwise the direct \<^verbatim>\<open>fetch\<close>,
  then the proxy, then \<^verbatim>\<open>Error("Web Fetch Failed")\<close>.
\<close>

definition nativeFetch :: "env \<Rightarrow> string \<Rightarrow> world \<Rightarrow> (error + jsval) \<times> world" where
  "nativeFetch env url w =
     (if isNativePlatform env \<and> capacitorHttp env then
        (case capacitorGet env (trace w) url of
           GetRejects e \<Rightarrow> (Inl e, emit (CapacitorGet url) w)
         | GetResolves status d \<Rightarrow>
             (if 200 \<le> status \<and> status < 300 then Inr d
              else Inl (Error (''Native HTTP Error: '' @ showInt status)),
              emit (CapacitorGet url) w))
      else
        (case fetchJson env url w of
           (Some d, w1) \<Rightarrow> (Inr d, w1)
         | (None, w1) \<Rightarrow>
             (case fetchJson env (CORS_PROXY @ url) w1 of
                (Some d, w2) \<Rightarrow> (Inr d, w2)
              | (None, w2) \<Rightarrow> (Inl (Error ''Web Fetch Failed''), w2))))"

section \<open>Endpoint rotation\<close>

definition PIPED_INSTANCES :: "string list" where
  "PIPED_INSTANCES =
     [''https://pipedapi.kavin.rocks'',
      ''https://api.piped.vic.click'',
      ''https://piped-api.garudalinux.org'',
      ''https://pipedapi.drgns.space'',
      ''https://pa.il.ax'',
      ''https://pipedapi.system41.site'',
      ''https://api.piped.privacy.com.de'']"

definition maxAttempts :: nat where
  "maxAttempts = 3"

text \<open>The \<^verbatim>\<open>while\<close> loop of \<open>fetchWithRotation\<close>, from a given count of attempts.\<close>

function rotateLoop :: "env \<Rightarrow> string \<Rightarrow> nat \<Rightarrow> world \<Rightarrow> (error + jsval) \<times> world" where
  "rotateLoop env path attempts w =
     (if attempts < maxAttempts then
        (let currentIndex = (activeInstanceIndex w + attempts) mod length PIPED_INSTANCES;
             url = PIPED_INSTANCES ! currentIndex @ path
         in case nativeFetch env url w of
              (Inr d, w') \<Rightarrow>
                (Inr d,
                 if activeInstanceIndex w' \<noteq> currentIndex
                 then w'\<lparr>activeInstanceIndex := currentIndex\<rparr> else w')
            | (Inl e, w') \<Rightarrow> rotateLoop env path (attempts + 1) w')
      else (Inl (Error ''All API instances failed.''), w))"
  by pat_completeness auto
termination
  by (relation "measure (\<lambda>(env, path, attempts, w). maxAttempts - attempts)") auto

declare rotateLoop.simps [simp del]

definition fetchWithRotation :: "env \<Rightarrow> string \<Rightarrow> world \<Rightarrow> (error + jsval) \<times> world" where
  "fetchWithRotation env path w = rotateLoop env path 0 w"

section \<open>The video record and the mock sets\<close>

text \<open>
  \<^verbatim>\<open>VideoData\<close>. The normalizers fill its fields from values typed \<^verbatim>\<open>any\<close>, so a
  field holds a JavaScript value; a property that an object literal does not set is
  \<^verbatim>\<open>undefined\<close>.
\<close>

record VideoData =
  id_v :: jsval
  title :: jsval
  uploader :: jsval
  views :: jsval
  date :: jsval
  duration :: jsval
  thumbnail :: jsval
  platform :: jsval
  avatar :: jsval
  isShort :: jsval
  streamUrl :: jsval

text \<open>
  The four mock sets are constants of another module of the repository; the service is
  modelled for any value of them.
\<close>

record constants =
  MOCK_VIDEOS :: "VideoData list"
  MOCK_TIKTOK_VIDEOS :: "VideoData list"
  MOCK_RUMBLE_VIDEOS :: "VideoData list"
  MOCK_PEERTUBE_VIDEOS :: "VideoData list"

section \<open>Conversion to a string\<close>

text \<open>
  ToString of ECMAScript, as a template literal applies it. An array is the join of
  its elements with commas, \<^verbatim>\<open>undefined\<close> and \<^verbatim>\<open>null\<close> giving the empty string.
  An object decoded from JSON prints as \<^verbatim>\<open>[object Object]\<close>, unless it has a
  property \<^verbatim>\<open>toString\<close> of its own, which is no function: a TypeError.
\<close>

fun jsToString :: "jsval \<Rightarrow> error + string"
  and joinElems :: "jsval list \<Rightarrow> error + string" where
  "jsToString JUndefined = Inr ''undefined''"
| "jsToString JNull = Inr ''null''"
| "jsToString (JBool b) = Inr (if b then ''true'' else ''false'')"
| "jsToString (JNum n) = Inr (showInt n)"
| "jsToString (JStr s) = Inr s"
| "jsToString (JArr xs) = joinElems xs"
| "jsToString (JObj kvs) =
     (if map_of kvs ''toString'' = None then Inr ''[object Object]'' else Inl TypeError)"
| "joinElems [] = Inr []"
| "joinElems (x # xs) =
     bindE (if x = JUndefined \<or> x = JNull then Inr [] else jsToString x) (\<lambda>s.
       if xs = [] then Inr s else bindE (joinElems xs) (\<lambda>r. Inr (s @ '','' @ r)))"

text \<open>The method call \<^verbatim>\<open>v.toString()\<close>.\<close>

definition methodToString :: "jsval \<Rightarrow> error + string" where
  "methodToString v = (if isNullish v then Inl TypeError else jsToString v)"

section \<open>Normalizers\<close>

text \<open>
  The arrow function that \<open>getTrending\<close> and \<open>search\<close> map over the items of the
  rotation-capable provider. Its first read is \<^verbatim>\<open>v.url.split('v=')[1]\<close>, which throws
  unless \<^verbatim>\<open>v.url\<close> is a string; once it has passed, \<open>v\<close> is neither
  \<^verbatim>\<open>undefined\<close> nor \<^verbatim>\<open>null\<close> and the other reads cannot throw.
\<close>

definition mapPipedItem :: "env \<Rightarrow> jsval \<Rightarrow> error + VideoData" where
  "mapPipedItem env v =
     bindE (getProp v ''url'') (\<lambda>url.
     bindE (case url of JStr s \<Rightarrow> Inr (strAt (split_str s ''v='') 1) | _ \<Rightarrow> Inl TypeError) (\<lambda>i.
     bindE (formatViews env (propOf v ''views'')) (\<lambda>vw.
     bindE (formatDuration env (propOf v ''duration'')) (\<lambda>dur.
     Inr \<lparr>id_v = i,
          title = propOf v ''title'',
          uploader = propOf v ''uploaderName'',
          views = JStr vw,
          date = jsOr (propOf v ''uploadedDate'') (JStr ''Recently''),
          duration = JStr dur,
          thumbnail = propOf v ''thumbnail'',
          platform = JStr ''YouTube'',
          avatar = propOf v ''uploaderAvatar'',
          isShort = propOf v ''isShort'',
          streamUrl = JUndefined\<rparr>))))"

text \<open>The arrow function of \<open>mapDmData\<close>; its first read is \<^verbatim>\<open>v.id\<close>.\<close>

definition mapDmItem :: "env \<Rightarrow> jsval \<Rightarrow> error + VideoData" where
  "mapDmItem env v =
     bindE (getProp v ''id'') (\<lambda>i.
     bindE (formatViews env (propOf v ''views_total'')) (\<lambda>vw.
     bindE (formatDuration env (propOf v ''duration'')) (\<lambda>dur.
     Inr \<lparr>id_v = i,
          title = propOf v ''title'',
          uploader = (if truthy (propOf v ''owner'') then propOf (propOf v ''owner'') ''username''
                      else JStr ''Unknown''),
          views = JStr vw,
          date = JStr ''Recently'',
          duration = JStr dur,
          thumbnail = propOf v ''thumbnail_720_url'',
          platform = JStr ''Dailymotion'',
          avatar = (if truthy (propOf v ''owner'') then propOf (propOf v ''owner'') ''avatar_80_url''
                    else JStr []),
          isShort = JUndefined,
          streamUrl = JUndefined\<rparr>)))"

definition mapDmData :: "env \<Rightarrow> jsval \<Rightarrow> error + VideoData list" where
  "mapDmData env data =
     (if \<not> truthy data \<or> \<not> truthy (propOf data ''list'') then Inr []
      else jsMap (mapDmItem env) (propOf data ''list''))"

text \<open>The arrow function of \<open>mapPeerTubeData\<close>; its first read is \<^verbatim>\<open>v.uuid\<close>.\<close>

definition mapPeerTubeItem :: "env \<Rightarrow> jsval \<Rightarrow> error + VideoData" where
  "mapPeerTubeItem env v =
     bindE (getProp v ''uuid'') (\<lambda>uuid.
     bindE (if truthy uuid then Inr uuid
            else bindE (methodToString (propOf v ''id'')) (\<lambda>s. Inr (JStr s))) (\<lambda>i.
     bindE (formatViews env (propOf v ''views'')) (\<lambda>vw.
     bindE (if truthy (propOf v ''publishedAt'')
            then toLocaleDateString env (propOf v ''publishedAt'')
            else Inr ''Recently'') (\<lambda>dt.
     bindE (formatDuration env (propOf v ''duration'')) (\<lambda>dur.
     bindE (if truthy (propOf v ''thumbnailUrl'') then Inr (propOf v ''thumbnailUrl'')
            else if truthy (propOf v ''previewPath'')
            then bindE (jsToString (propOf v ''previewPath''))
                   (\<lambda>s. Inr (JStr (''https://sepiasearch.org'' @ s)))
            else Inr (JStr [])) (\<lambda>th.
     Inr \<lparr>id_v = i,
          title = jsOr (propOf v ''name'') (propOf (propOf v ''option'') ''name''),
          uploader = jsOr (propOf (propOf v ''account'') ''name'') (JStr ''PeerTube User''),
          views = JStr vw,
          date = JStr dt,
          duration = JStr dur,
          thumbnail = th,
          platform = JStr ''PeerTube'',
          avatar = JStr [],
          isShort = JUndefined,
          streamUrl = propOf v ''embedPath''\<rparr>))))))"

definition mapPeerTubeData :: "env \<Rightarrow> jsval \<Rightarrow> error + VideoData list" where
  "mapPeerTubeData env data =
     (if \<not> truthy data \<or> \<not> truthy (propOf data ''data'') then Inr []
      else jsMap (mapPeerTubeItem env) (propOf data ''data''))"

section \<open>The service\<close>

definition PEERTUBE_SEARCH_API :: string where
  "PEERTUBE_SEARCH_API = ''https://sepiasearch.org/api/v1/search/videos''"

definition DM_API_BASE :: string where
  "DM_API_BASE = ''https://api.dailymotion.com''"

definition DM_FIELDS :: string where
  "DM_FIELDS = ''/videos?flags=no_live,no_premium&fields=id,title,owner.username,views_total,created_time,duration,thumbnail_720_url,owner.avatar_80_url''"

text \<open>\<^verbatim>\<open>encodeURIComponent\<close> on ASCII: letters, digits and \<^verbatim>\<open>-_.!~*'()\<close> stay, every
  other character becomes \<^verbatim>\<open>%XX\<close>.\<close>

definition hexChars :: string where
  "hexChars = ''0123456789ABCDEF''"

definition unreserved :: "char \<Rightarrow> bool" where
  "unreserved c =
     (let n = (of_char c :: nat)
      in (65 \<le> n \<and> n \<le> 90) \<or> (97 \<le> n \<and> n \<le> 122) \<or> (48 \<le> n \<and> n \<le> 57)
         \<or> c \<in> set ''-_.!~*()'' \<or> n = 39)"

definition encodeURIComponent :: "string \<Rightarrow> string" where
  "encodeURIComponent s =
     concat (map (\<lambda>c. if unreserved c then [c]
                       else [CHR ''%'', hexChars ! ((of_char c :: nat) div 16),
                             hexChars ! ((of_char c :: nat) mod 16)]) s)"

text \<open>
  How the promise of an \<^verbatim>\<open>async\<close> method ends: resolved with a value, rejected
  with what was thrown, or never settled (a throw inside a timer callback leaves the
  promise pending).
\<close>

datatype 'a outcome =
    Resolved 'a
  | Rejected error
  | Pending

text \<open>A payload, or the throw that came instead of it, handed to the code that follows
  the \<^verbatim>\<open>await\<close> inside the same \<^verbatim>\<open>try\<close>.\<close>

definition thenE :: "(error + 'a) \<times> world \<Rightarrow> ('a \<Rightarrow> error + 'b) \<Rightarrow> (error + 'b) \<times> world" where
  "thenE r f = (case r of (x, w) \<Rightarrow> (bindE x f, w))"

text \<open>\<^verbatim>\<open>v.title.toLowerCase().includes(query.toLowerCase())\<close>: a TypeError unless the
  title is a string.\<close>

definition titleIncludes :: "string \<Rightarrow> VideoData \<Rightarrow> error + bool" where
  "titleIncludes query v =
     (case title v of
        JStr t \<Rightarrow> Inr (includes_str (toLowerCase t) (toLowerCase query))
      | _ \<Rightarrow> Inl TypeError)"

subsection \<open>getTrending\<close>

text \<open>The body of the \<^verbatim>\<open>try\<close> block: its value, or what it throws.\<close>

definition getTrendingTry ::
  "env \<Rightarrow> constants \<Rightarrow> string \<Rightarrow> string \<Rightarrow> world \<Rightarrow> (error + VideoData list) \<times> world" where
  "getTrendingTry env c provider country w =
     (if provider = ''YouTube'' \<or> provider = ''All'' then
        thenE (fetchWithRotation env (''/trending?region='' @ country) w) (jsMap (mapPipedItem env))
      else if provider = ''Dailymotion'' then
        thenE (nativeFetch env
                 (DM_API_BASE @ DM_FIELDS @ ''&sort=trending&limit=20&country='' @ country) w)
          (mapDmData env)
      else if provider = ''PeerTube'' then
        thenE (nativeFetch env (PEERTUBE_SEARCH_API @ ''?sort=-publishedAt&nsfw=false&count=10'') w)
          (mapPeerTubeData env)
      else if provider = ''TikTok'' then (Inr (MOCK_TIKTOK_VIDEOS c), w)
      else if provider = ''Rumble'' then (Inr (MOCK_RUMBLE_VIDEOS c), w)
      else if provider = ''Bandcamp'' then (Inr [], w)
      else (Inr (MOCK_VIDEOS c), w))"

text \<open>
  \<open>country\<close> is \<open>None\<close> when the caller leaves the argument out: the default
  \<^verbatim>\<open>'US'\<close>. The \<^verbatim>\<open>catch\<close> block returns three of the mock sets at once and the
  generic one from a timer of 800 ms.
\<close>

definition getTrending ::
  "env \<Rightarrow> constants \<Rightarrow> string \<Rightarrow> string option \<Rightarrow> world \<Rightarrow> VideoData list outcome \<times> world" where
  "getTrending env c provider country w =
     (let isNative = isNativePlatform env
      in case getTrendingTry env c provider (case country of None \<Rightarrow> ''US'' | Some x \<Rightarrow> x) w of
           (Inr vs, w') \<Rightarrow> (Resolved vs, w')
         | (Inl e, w') \<Rightarrow>
             if \<not> isNative then
               if provider = ''TikTok'' then (Resolved (MOCK_TIKTOK_VIDEOS c), w')
               else if provider = ''Rumble'' then (Resolved (MOCK_RUMBLE_VIDEOS c), w')
               else if provider = ''PeerTube'' then (Resolved (MOCK_PEERTUBE_VIDEOS c), w')
               else (Resolved (MOCK_VIDEOS c), emit (SetTimeout 800) w')
             else (Resolved [], w'))"

subsection \<open>search\<close>

definition isStream :: "jsval \<Rightarrow> error + bool" where
  "isStream i = bindE (getProp i ''type'') (\<lambda>t. Inr (t = JStr ''stream''))"

definition searchTry ::
  "env \<Rightarrow> constants \<Rightarrow> string \<Rightarrow> string \<Rightarrow> world \<Rightarrow> (error + VideoData list) \<times> world" where
  "searchTry env c query provider w =
     (if provider = ''YouTube'' \<or> provider = ''All'' then
        thenE (fetchWithRotation env (''/search?q='' @ encodeURIComponent query @ ''&filter=all'') w)
          (\<lambda>d. bindE (getProp d ''items'') (\<lambda>items.
                bindE (jsFilter isStream items) (mapE (mapPipedItem env))))
      else if provider = ''Dailymotion'' then
        thenE (nativeFetch env
                 (DM_API_BASE @ DM_FIELDS @ ''&limit=20&search='' @ encodeURIComponent query) w)
          (mapDmData env)
      else if provider = ''PeerTube'' then
        thenE (nativeFetch env
                 (PEERTUBE_SEARCH_API @ ''?search='' @ encodeURIComponent query
                    @ ''&count=20&sort=-match'') w)
          (mapPeerTubeData env)
      else if provider = ''TikTok'' then
        (filterE (\<lambda>v. bindE (titleIncludes query v) (\<lambda>b. Inr (b \<or> length query < 3)))
           (MOCK_TIKTOK_VIDEOS c), w)
      else if provider = ''Rumble'' then
        (filterE (\<lambda>v. bindE (titleIncludes query v) (\<lambda>b. Inr (b \<or> length query < 3)))
           (MOCK_RUMBLE_VIDEOS c), w)
      else (filterE (titleIncludes query) (MOCK_VIDEOS c), w))"

text \<open>The callback of the 800 ms timer in the \<^verbatim>\<open>catch\<close> block of \<open>search\<close>.\<close>

definition searchFallback :: "constants \<Rightarrow> string \<Rightarrow> string \<Rightarrow> VideoData list outcome" where
  "searchFallback c query provider =
     (let results =
            (if provider = ''TikTok'' then MOCK_TIKTOK_VIDEOS c
             else if provider = ''Rumble'' then MOCK_RUMBLE_VIDEOS c
             else if provider = ''PeerTube'' then MOCK_PEERTUBE_VIDEOS c
             else MOCK_VIDEOS c)
      in case filterE (titleIncludes query) results of
           Inl e \<Rightarrow> Pending
         | Inr filtered \<Rightarrow> Resolved (if length filtered > 0 then filtered else results))"

definition search ::
  "env \<Rightarrow> constants \<Rightarrow> string \<Rightarrow> string \<Rightarrow> world \<Rightarrow> VideoData list outcome \<times> world" where
  "search env c query provider w =
     (let isNative = isNativePlatform env
      in case searchTry env c query provider w of
           (Inr vs, w') \<Rightarrow> (Resolved vs, w')
         | (Inl e, w') \<Rightarrow>
             if \<not> isNative then (searchFallback c query provider, emit (SetTimeout 800) w')
             else (Resolved [], w'))"

subsection \<open>getSuggestions\<close>

definition getSuggestions :: "env \<Rightarrow> string \<Rightarrow> world \<Rightarrow> jsval outcome \<times> world" where
  "getSuggestions env query w =
     (if query = [] then (Resolved (JArr []), w)
      else case fetchWithRotation env (''/suggestions?query='' @ encodeURIComponent query) w of
             (Inr d, w') \<Rightarrow> (Resolved d, w')
           | (Inl e, w') \<Rightarrow> (Resolved (JArr []), w'))"

subsection \<open>getStreamUrl\<close>

text \<open>\<^verbatim>\<open>s.quality === q && s.videoOnly === false\<close>.\<close>

definition isVariant :: "string \<Rightarrow> jsval \<Rightarrow> error + bool" where
  "isVariant q s =
     bindE (getProp s ''quality'') (\<lambda>ql. Inr (ql = JStr q \<and> propOf s ''videoOnly'' = JBool False))"

text \<open>\<^verbatim>\<open>s.videoOnly === false\<close>.\<close>

definition isAudioVideo :: "jsval \<Rightarrow> error + bool" where
  "isAudioVideo s = bindE (getProp s ''videoOnly'') (\<lambda>vo. Inr (vo = JBool False))"

text \<open>The \<^verbatim>\<open>try\<close> block of the branch of the rotation-capable provider, after the
  \<^verbatim>\<open>await\<close>: the value returned, or what is thrown.\<close>

definition pickStream :: "jsval \<Rightarrow> error + jsval" where
  "pickStream d =
     bindE (getProp d ''hls'') (\<lambda>hls.
       if truthy hls then Inr hls
       else
         let streams = jsOr (propOf d ''videoStreams'') (JArr [])
         in bindE (bindE (jsFind (isVariant ''1080p'') streams) (\<lambda>a.
                     if truthy a then Inr a
                     else bindE (jsFind (isVariant ''720p'') streams) (\<lambda>b.
                       if truthy b then Inr b else jsFind isAudioVideo streams)))
              (\<lambda>bestStream. Inr (if truthy bestStream then propOf bestStream ''url'' else JNull)))"

definition SAMPLE_URL :: string where
  "SAMPLE_URL = ''https://commondatastorage.googleapis.com/gtv-videos-bucket/sample/BigBuckBunny.mp4''"

definition allMocks :: "constants \<Rightarrow> VideoData list" where
  "allMocks c =
     MOCK_TIKTOK_VIDEOS c @ MOCK_RUMBLE_VIDEOS c @ MOCK_PEERTUBE_VIDEOS c @ MOCK_VIDEOS c"

definition getStreamUrl ::
  "env \<Rightarrow> constants \<Rightarrow> string \<Rightarrow> string \<Rightarrow> world \<Rightarrow> jsval outcome \<times> world" where
  "getStreamUrl env c ident provider w =
     (if provider = ''YouTube'' then
        (case fetchWithRotation env (''/streams/'' @ ident) w of
           (Inr d, w') \<Rightarrow> (Resolved (case pickStream d of Inr u \<Rightarrow> u | Inl e \<Rightarrow> JNull), w')
         | (Inl e, w') \<Rightarrow> (Resolved JNull, w'))
      else if provider = ''Dailymotion'' then
        (Resolved (JStr (''https://www.dailymotion.com/embed/video/'' @ ident @ ''?autoplay=1'')), w)
      else
        (case find (\<lambda>v. id_v v = JStr ident) (allMocks c) of
           Some m \<Rightarrow> (Resolved (if truthy (streamUrl m) then streamUrl m else JStr SAMPLE_URL), w)
         | None \<Rightarrow> (Resolved (JStr SAMPLE_URL), w)))"

section \<open>Notions of the specification\<close>

text \<open>A \<^verbatim>\<open>fetch\<close> attempt succeeds with a payload when it resolves with a status from
  200 to 299 and a body that decodes.\<close>

definition okBody :: "fetch_reply \<Rightarrow> jsval option" where
  "okBody r =
     (case r of
        FetchRejects e \<Rightarrow> None
      | FetchResolves status body \<Rightarrow> if 200 \<le> status \<and> status < 300 then body else None)"

text \<open>An audio+video variant of a given quality, and an audio+video variant of any
  quality, among the entries of a stream list.\<close>

definition progressive :: "string \<Rightarrow> jsval \<Rightarrow> bool" where
  "progressive q s = (propOf s ''quality'' = JStr q \<and> propOf s ''videoOnly'' = JBool False)"

definition audioVideo :: "jsval \<Rightarrow> bool" where
  "audioVideo s = (propOf s ''videoOnly'' = JBool False)"

text \<open>The preference order 1080p, 720p, any audio+video variant.\<close>

definition preferredVariant :: "jsval list \<Rightarrow> jsval option" where
  "preferredVariant ss =
     (case find (progressive ''1080p'') ss of
        Some s \<Rightarrow> Some s
      | None \<Rightarrow>
          (case find (progressive ''720p'') ss of
             Some s \<Rightarrow> Some s
           | None \<Rightarrow> find audioVideo ss))"

text \<open>The mock sets are declared \<^verbatim>\<open>VideoData[]\<close>, whose \<^verbatim>\<open>title\<close> is a string.\<close>

definition stringTitles :: "VideoData list \<Rightarrow> bool" where
  "stringTitles vs = list_all (\<lambda>v. case title v of JStr t \<Rightarrow> True | _ \<Rightarrow> False) vs"

definition typedMocks :: "constants \<Rightarrow> bool" where
  "typedMocks c =
     (stringTitles (MOCK_VIDEOS c) \<and> stringTitles (MOCK_TIKTOK_VIDEOS c)
      \<and> stringTitles (MOCK_RUMBLE_VIDEOS c) \<and> stringTitles (MOCK_PEERTUBE_VIDEOS c))"

text \<open>Case-insensitive match of the query inside the title.\<close>

definition matchesTitle :: "string \<Rightarrow> VideoData \<Rightarrow> bool" where
  "matchesTitle query v =
     (case title v of
        JStr t \<Rightarrow> includes_str (toLowerCase t) (toLowerCase query)
      | _ \<Rightarrow> False)"


section \<open>Example environments\<close>

text \<open>A browser with no network, a device with the plugin and no network, and a
  device on which the plugin is missing.\<close>

definition offlineWeb :: env where
  "offlineWeb =
     \<lparr>isNativePlatform = False, capacitorHttp = False,
      capacitorGet = (\<lambda>h u. GetRejects NetworkFailure),
      fetch = (\<lambda>h u. FetchRejects NetworkFailure),
      toLocaleDateString = (\<lambda>v. Inr ''1/1/2024''),
      coerceViews = (\<lambda>v. Inl TypeError),
      coerceDuration = (\<lambda>v. Inl TypeError)\<rparr>"


definition nativeNoPlugin :: env where
  "nativeNoPlugin = offlineWeb\<lparr>isNativePlatform := True\<rparr>"

definition world0 :: world where
  "world0 = \<lparr>activeInstanceIndex = 0, trace = []\<rparr>"

definition mockVideo :: "string \<Rightarrow> string \<Rightarrow> jsval \<Rightarrow> VideoData" where
  "mockVideo i t u =
     \<lparr>id_v = JStr i, title = JStr t, uploader = JStr ''Someone'', views = JStr ''1.2K'',
      date = JStr ''Recently'', duration = JStr ''0:30'', thumbnail = JStr ''https://e.x/t.jpg'',
      platform = JStr ''TikTok'', avatar = JStr [], isShort = JUndefined, streamUrl = u\<rparr>"

definition exampleMocks :: constants where
  "exampleMocks =
     \<lparr>MOCK_VIDEOS = [mockVideo ''g1'' ''Cat video'' JUndefined, mockVideo ''g2'' ''Dog'' JUndefined],
      MOCK_TIKTOK_VIDEOS =
        [mockVideo ''t1'' ''Dance'' (JStr ''https://e.x/t1.mp4''), mockVideo ''t2'' ''Song'' JUndefined],
      MOCK_RUMBLE_VIDEOS = [mockVideo ''r1'' ''News'' JUndefined],
      MOCK_PEERTUBE_VIDEOS = [mockVideo ''p1'' ''Talk'' JUndefined]\<rparr>"

text \<open>A browser whose every request is answered with a stream payload that offers a
  720p and a 1080p audio+video variant, in this order, and no adaptive stream.\<close>

definition streamsPayload :: jsval where
  "streamsPayload =
     JObj [(''videoStreams'',
            JArr [JObj [(''quality'', JStr ''720p''), (''videoOnly'', JBool False),
                        (''url'', JStr ''https://e.x/720'')],
                  JObj [(''quality'', JStr ''1080p''), (''videoOnly'', JBool False),
                        (''url'', JStr ''https://e.x/1080'')]])]"

definition streamsWeb :: env where
  "streamsWeb = offlineWeb\<lparr>fetch := (\<lambda>h u. FetchResolves 200 (Some streamsPayload))\<rparr>"

text \<open>A browser whose every request is answered with a stream payload whose list holds
  a 720p audio+video variant and then \<^verbatim>\<open>null\<close>.\<close>

definition variant720 :: jsval where
  "variant720 =
     JObj [(''quality'', JStr ''720p''), (''videoOnly'', JBool False),
           (''url'', JStr ''https://e.x/720'')]"

definition brokenStreamsPayload :: jsval where
  "brokenStreamsPayload = JObj [(''videoStreams'', JArr [variant720, JNull])]"

definition brokenStreamsWeb :: env where
  "brokenStreamsWeb = offlineWeb\<lparr>fetch := (\<lambda>h u. FetchResolves 200 (Some brokenStreamsPayload))\<rparr>"

text \<open>Mock sets in which every set has a record with a stream URL, and the id
  \<^verbatim>\<open>s1\<close> stands in the TikTok set without a stream URL and in the generic set with
  one.\<close>

definition streamMocks :: constants where
  "streamMocks =
     \<lparr>MOCK_VIDEOS =
        [mockVideo ''g1'' ''Film'' (JStr ''https://e.x/g1.mp4''),
         mockVideo ''s1'' ''Movie'' (JStr ''https://e.x/s1.mp4'')],
      MOCK_TIKTOK_VIDEOS =
        [mockVideo ''t1'' ''Dance'' (JStr ''https://e.x/t1.mp4''), mockVideo ''s1'' ''Clip'' JUndefined],
      MOCK_RUMBLE_VIDEOS = [mockVideo ''r1'' ''News'' (JStr ''https://e.x/r1.mp4'')],
      MOCK_PEERTUBE_VIDEOS = [mockVideo ''p1'' ''Talk'' (JStr ''https://e.x/p1.mp4'')]\<rparr>"













section \<open>The example mock sets\<close>

lemma mockVideo_fields [simp]:
  "title (mockVideo i t u) = JStr t" "id_v (mockVideo i t u) = JStr i" "streamUrl (mockVideo i t u) = u"
  by (simp_all add: mockVideo_def)

lemma typedMocks_exampleMocks: "typedMocks exampleMocks"
  by (simp add: typedMocks_def stringTitles_def exampleMocks_def)

section \<open>Properties of the formatters\<close>

lemmas format_defs =
  formatViews_def formatDuration_def fdiv_def toFixed1_def roundHalfEven_def
  log2floor.simps showInt_def showNat.simps digitChars_def jsRem_def padStart2_def

lemma formatViews_millions: "formatViews env (JNum 1500000) = Inr ''1.5M''"
  by (simp add: format_defs)

lemma formatViews_small: "formatViews env (JNum 500) = Inr ''500''"
  by (simp add: format_defs)

lemma formatViews_zero: "formatViews env (JNum 0) = Inr ''0''"
  by (simp add: format_defs)

lemma formatDuration_hours: "formatDuration env (JNum 3661) = Inr ''1:01:01''"
  by (simp add: format_defs)

lemma formatDuration_minutes: "formatDuration env (JNum 90) = Inr ''1:30''"
  by (simp add: format_defs)

lemma formatDuration_zero: "formatDuration env (JNum 0) = Inr ''00:00''"
  by (simp add: format_defs)

text \<open>
  C7. On a number the formatters return a string that the number alone decides,
  whatever the environment: \<open>formatViews(1500000) = "1.5M"\<close>,
  \<open>formatViews(500) = "500"\<close>, \<open>formatViews(0) = "0"\<close>,
  \<open>formatDuration(3661) = "1:01:01"\<close>, \<open>formatDuration(90) = "1:30"\<close> and
  \<open>formatDuration(0) = "00:00"\<close>.
\<close>

theorem formatters_examples:
  "formatViews env (JNum 1500000) = Inr ''1.5M''
   \<and> formatViews env (JNum 500) = Inr ''500''
   \<and> formatViews env (JNum 0) = Inr ''0''
   \<and> formatDuration env (JNum 3661) = Inr ''1:01:01''
   \<and> formatDuration env (JNum 90) = Inr ''1:30''
   \<and> formatDuration env (JNum 0) = Inr ''00:00''"
  using formatViews_millions formatViews_small formatViews_zero
    formatDuration_hours formatDuration_minutes formatDuration_zero
  by blast

section \<open>Properties of the rotation\<close>

lemma fetchJson_world: "fetchJson env u w = (r, w') \<Longrightarrow> w' = emit (Fetch u) w"
  by (auto simp: fetchJson_def split: fetch_reply.splits)

lemma nativeFetch_index:
  "nativeFetch env url w = (r, w') \<Longrightarrow> activeInstanceIndex w' = activeInstanceIndex w"
  by (auto simp: nativeFetch_def emit_def dest!: fetchJson_world
      split: if_splits native_reply.splits prod.splits option.splits)

lemma rotateLoop_success:
  "a < maxAttempts \<Longrightarrow>
   nativeFetch env (PIPED_INSTANCES ! ((activeInstanceIndex v + a) mod length PIPED_INSTANCES) @ path) v
     = (Inr d, v') \<Longrightarrow>
   rotateLoop env path a v =
     (Inr d, v'\<lparr>activeInstanceIndex := (activeInstanceIndex v + a) mod length PIPED_INSTANCES\<rparr>)"
  by (subst rotateLoop.simps) (auto simp: Let_def)

lemma rotateLoop_failure:
  "a < maxAttempts \<Longrightarrow>
   nativeFetch env (PIPED_INSTANCES ! ((activeInstanceIndex v + a) mod length PIPED_INSTANCES) @ path) v
     = (Inl e, v') \<Longrightarrow>
   rotateLoop env path a v = rotateLoop env path (Suc a) v'"
  by (subst rotateLoop.simps) (auto simp: Let_def)

lemma rotateLoop_stop: "rotateLoop env path 3 v = (Inl (Error ''All API instances failed.''), v)"
  by (subst rotateLoop.simps) (simp add: maxAttempts_def)

lemma rotation_unrolled:
  "fetchWithRotation env path w =
     (let i = activeInstanceIndex w;
          n = length PIPED_INSTANCES;
          url = (\<lambda>k. PIPED_INSTANCES ! ((i + k) mod n) @ path)
      in case nativeFetch env (url 0) w of
           (Inr d, w0) \<Rightarrow> (Inr d, w0\<lparr>activeInstanceIndex := i mod n\<rparr>)
         | (Inl e0, w0) \<Rightarrow>
             (case nativeFetch env (url 1) w0 of
                (Inr d, w1) \<Rightarrow> (Inr d, w1\<lparr>activeInstanceIndex := (i + 1) mod n\<rparr>)
              | (Inl e1, w1) \<Rightarrow>
                  (case nativeFetch env (url 2) w1 of
                     (Inr d, w2) \<Rightarrow> (Inr d, w2\<lparr>activeInstanceIndex := (i + 2) mod n\<rparr>)
                   | (Inl e2, w2) \<Rightarrow>
                       (Inl (Error ''All API instances failed.''), w\<lparr>trace := trace w2\<rparr>))))"
proof -
  define i where "i = activeInstanceIndex w"
  define n where "n = length PIPED_INSTANCES"
  define url where "url = (\<lambda>k. PIPED_INSTANCES ! ((i + k) mod n) @ path)"
  obtain r0 w0 where a0: "nativeFetch env (url 0) w = (r0, w0)" by fastforce
  obtain r1 w1 where a1: "nativeFetch env (url 1) w0 = (r1, w1)" by fastforce
  obtain r2 w2 where a2: "nativeFetch env (url 2) w1 = (r2, w2)" by fastforce
  have i0: "activeInstanceIndex w0 = i" using nativeFetch_index [OF a0] by (simp add: i_def)
  have i1: "activeInstanceIndex w1 = i" using nativeFetch_index [OF a1] i0 by simp
  have i2: "activeInstanceIndex w2 = i" using nativeFetch_index [OF a2] i1 by simp
  have b0: "nativeFetch env (PIPED_INSTANCES ! ((activeInstanceIndex w + 0) mod length PIPED_INSTANCES) @ path) w = (r0, w0)"
    using a0 by (simp add: url_def i_def n_def)
  have b1: "nativeFetch env (PIPED_INSTANCES ! ((activeInstanceIndex w0 + 1) mod length PIPED_INSTANCES) @ path) w0 = (r1, w1)"
    using a1 i0 by (simp add: url_def n_def)
  have b2: "nativeFetch env (PIPED_INSTANCES ! ((activeInstanceIndex w1 + 2) mod length PIPED_INSTANCES) @ path) w1 = (r2, w2)"
    using a2 i1 by (simp add: url_def n_def)
  have lt: "0 < maxAttempts" "1 < maxAttempts" "2 < maxAttempts" by (simp_all add: maxAttempts_def)
  have fin: "w\<lparr>trace := trace w2\<rparr> = w2" using i2 by (simp add: i_def)
  have "rotateLoop env path 0 w =
      (case (r0, w0) of
           (Inr d, w0) \<Rightarrow> (Inr d, w0\<lparr>activeInstanceIndex := i mod n\<rparr>)
         | (Inl e0, w0) \<Rightarrow>
             (case (r1, w1) of
                (Inr d, w1) \<Rightarrow> (Inr d, w1\<lparr>activeInstanceIndex := (i + 1) mod n\<rparr>)
              | (Inl e1, w1) \<Rightarrow>
                  (case (r2, w2) of
                     (Inr d, w2) \<Rightarrow> (Inr d, w2\<lparr>activeInstanceIndex := (i + 2) mod n\<rparr>)
                   | (Inl e2, w2) \<Rightarrow>
                       (Inl (Error ''All API instances failed.''), w\<lparr>trace := trace w2\<rparr>))))"
  proof (cases r0)
    case (Inr d)
    then show ?thesis using rotateLoop_success [OF lt(1)] b0 by (simp add: i_def n_def)
  next
    case e0: (Inl e)
    have c0: "rotateLoop env path 0 w = rotateLoop env path 1 w0"
      using rotateLoop_failure [OF lt(1)] b0 e0 by simp
    show ?thesis
    proof (cases r1)
      case (Inr d)
      then show ?thesis using rotateLoop_success [OF lt(2)] b1 e0 c0 i0 by (simp add: n_def)
    next
      case e1: (Inl e')
      have c1: "rotateLoop env path 1 w0 = rotateLoop env path 2 w1"
        using rotateLoop_failure [OF lt(2), of env w0 path] b1 e1 by (simp add: numeral_2_eq_2)
      show ?thesis
      proof (cases r2)
        case (Inr d)
        then show ?thesis using rotateLoop_success [OF lt(3)] b2 e0 e1 c0 c1 i1 by (simp add: n_def)
      next
        case e2: (Inl e'')
        have c2: "rotateLoop env path 2 w1 = rotateLoop env path 3 w2"
          using rotateLoop_failure [OF lt(3), of env w1 path] b2 e2 by (simp add: numeral_3_eq_3 numeral_2_eq_2)
        show ?thesis using e0 e1 e2 c0 c1 c2 fin by (simp add: rotateLoop_stop)
      qed
    qed
  qed
  moreover note a0 [unfolded url_def i_def n_def] a1 [unfolded url_def i_def n_def]
    a2 [unfolded url_def i_def n_def]
  ultimately show ?thesis
    unfolding fetchWithRotation_def Let_def i_def n_def
    by (cases r0; cases r1; cases r2) simp_all
qed

text \<open>
  C2. \<open>fetchWithRotation(path)\<close> makes at most three attempts, on the pool entries
  \<open>(preferred + k) mod poolSize\<close> for \<open>k = 0, 1, 2\<close> in this order. The first attempt
  that succeeds ends the call with that mirror's payload and leaves the preferred index
  at that mirror's index, with no later attempt. When the three attempts fail the call
  fails with \<^verbatim>\<open>Error("All API instances failed.")\<close> and the state is the one before
  the call but for the requests made.
\<close>

theorem fetchWithRotation_three_attempts:
  "fetchWithRotation env path w =
     (let i = activeInstanceIndex w;
          n = length PIPED_INSTANCES;
          url = (\<lambda>k. PIPED_INSTANCES ! ((i + k) mod n) @ path)
      in case nativeFetch env (url 0) w of
           (Inr d, w0) \<Rightarrow> (Inr d, w0\<lparr>activeInstanceIndex := i mod n\<rparr>)
         | (Inl e0, w0) \<Rightarrow>
             (case nativeFetch env (url 1) w0 of
                (Inr d, w1) \<Rightarrow> (Inr d, w1\<lparr>activeInstanceIndex := (i + 1) mod n\<rparr>)
              | (Inl e1, w1) \<Rightarrow>
                  (case nativeFetch env (url 2) w1 of
                     (Inr d, w2) \<Rightarrow> (Inr d, w2\<lparr>activeInstanceIndex := (i + 2) mod n\<rparr>)
                   | (Inl e2, w2) \<Rightarrow>
                       (Inl (Error ''All API instances failed.''), w\<lparr>trace := trace w2\<rparr>))))"
  by (rule rotation_unrolled)

section \<open>Properties of the transport\<close>

lemma nativeFetch_unfolded:
  "nativeFetch env url w =
     (if isNativePlatform env \<and> capacitorHttp env then
        (case capacitorGet env (trace w) url of
           GetRejects e \<Rightarrow> Inl e
         | GetResolves status d \<Rightarrow>
             if 200 \<le> status \<and> status < 300 then Inr d
             else Inl (Error (''Native HTTP Error: '' @ showInt status)),
         w\<lparr>trace := trace w @ [CapacitorGet url]\<rparr>)
      else
        (case okBody (fetch env (trace w) url) of
           Some d \<Rightarrow> (Inr d, w\<lparr>trace := trace w @ [Fetch url]\<rparr>)
         | None \<Rightarrow>
             (case okBody (fetch env (trace w @ [Fetch url]) (CORS_PROXY @ url)) of
                Some d \<Rightarrow> Inr d
              | None \<Rightarrow> Inl (Error ''Web Fetch Failed''),
              w\<lparr>trace := trace w @ [Fetch url, Fetch (CORS_PROXY @ url)]\<rparr>)))"
  by (auto simp: nativeFetch_def fetchJson_def okBody_def emit_def
      split: native_reply.splits fetch_reply.splits option.splits)

text \<open>
  C6, as the claim states it, fails on a native platform where the plugin is missing:
  there the request goes out through \<^verbatim>\<open>fetch\<close>, directly and then through the proxy.
\<close>

theorem native_without_plugin_uses_fetch:
  "isNativePlatform nativeNoPlugin
   \<and> nativeFetch nativeNoPlugin ''https://e.x/a'' world0 =
       (Inl (Error ''Web Fetch Failed''),
        \<lparr>activeInstanceIndex = 0,
         trace = [Fetch ''https://e.x/a'',
                  Fetch ''https://cors-anywhere.herokuapp.com/https://e.x/a'']\<rparr>)"
  by (simp add: nativeFetch_def fetchJson_def nativeNoPlugin_def offlineWeb_def world0_def
      emit_def CORS_PROXY_def)

text \<open>
  C6, amended. The two strategies exclude each other in every call. On a native
  platform that has the plugin, the one request is the plugin's: its data on a status
  from 200 to 299, its rejection or \<^verbatim>\<open>Error("Native HTTP Error: status")\<close> otherwise,
  and no \<^verbatim>\<open>fetch\<close>. In every other context (a browser, or a native platform without
  the plugin) the request is a direct \<^verbatim>\<open>fetch\<close>; when that fails, one more
  \<^verbatim>\<open>fetch\<close> of the URL behind the proxy prefix; when that fails too,
  \<^verbatim>\<open>Error("Web Fetch Failed")\<close>.
\<close>

theorem nativeFetch_strategies:
  "nativeFetch env url w =
     (if isNativePlatform env \<and> capacitorHttp env then
        (case capacitorGet env (trace w) url of
           GetRejects e \<Rightarrow> Inl e
         | GetResolves status d \<Rightarrow>
             if 200 \<le> status \<and> status < 300 then Inr d
             else Inl (Error (''Native HTTP Error: '' @ showInt status)),
         w\<lparr>trace := trace w @ [CapacitorGet url]\<rparr>)
      else
        (case okBody (fetch env (trace w) url) of
           Some d \<Rightarrow> (Inr d, w\<lparr>trace := trace w @ [Fetch url]\<rparr>)
         | None \<Rightarrow>
             (case okBody (fetch env (trace w @ [Fetch url]) (CORS_PROXY @ url)) of
                Some d \<Rightarrow> Inr d
              | None \<Rightarrow> Inl (Error ''Web Fetch Failed''),
              w\<lparr>trace := trace w @ [Fetch url, Fetch (CORS_PROXY @ url)]\<rparr>)))"
  by (rule nativeFetch_unfolded)

section \<open>Properties of getSuggestions\<close>

lemma fetchWithRotation_offlineWeb:
  "fst (fetchWithRotation offlineWeb path w) = Inl (Error ''All API instances failed.'')"
  by (simp add: rotation_unrolled Let_def nativeFetch_unfolded okBody_def offlineWeb_def)

text \<open>
  C8. \<open>getSuggestions\<close> never throws. On the empty query it resolves with the empty
  sequence and makes no request; on any other query whose rotated fetch fails it
  resolves with the empty sequence.
\<close>

theorem getSuggestions_never_throws:
  "(\<exists>v. fst (getSuggestions env query w) = Resolved v)
   \<and> getSuggestions env [] w = (Resolved (JArr []), w)
   \<and> (query \<noteq> []
        \<and> fst (fetchWithRotation env (''/suggestions?query='' @ encodeURIComponent query) w) = Inl e
      \<longrightarrow> fst (getSuggestions env query w) = Resolved (JArr []))"
  by (auto simp: getSuggestions_def split: prod.splits sum.splits)

theorem getSuggestions_offline_witness:
  "fst (getSuggestions offlineWeb ''cat'' world0) = Resolved (JArr [])
   \<and> getSuggestions offlineWeb [] world0 = (Resolved (JArr []), world0)"
  using getSuggestions_never_throws [of offlineWeb "''cat''" world0 "Error ''All API instances failed.''"]
  by (simp add: fetchWithRotation_offlineWeb)

section \<open>Properties of getStreamUrl\<close>

lemma findE_total:
  assumes "\<And>s. \<not> isNullish s \<Longrightarrow> p s = Inr (q s)"
  shows "list_all (\<lambda>s. \<not> isNullish s) ss \<Longrightarrow>
         findE p ss = Inr (case find q ss of Some s \<Rightarrow> s | None \<Rightarrow> JUndefined)"
  by (induction ss) (auto simp: assms bindE_def)

lemma isVariant_progressive: "\<not> isNullish s \<Longrightarrow> isVariant q s = Inr (progressive q s)"
  by (simp add: isVariant_def progressive_def getProp_def bindE_def)

lemma isAudioVideo_audioVideo: "\<not> isNullish s \<Longrightarrow> isAudioVideo s = Inr (audioVideo s)"
  by (simp add: isAudioVideo_def audioVideo_def getProp_def bindE_def)

lemma propOf_defined_truthy: "propOf s k \<noteq> JUndefined \<Longrightarrow> truthy s"
  by (cases s) auto

lemma find_holds: "find P xs = Some x \<Longrightarrow> P x"
  by (induction xs) (auto split: if_splits)

lemma find_progressive_truthy: "find (progressive q) ss = Some s \<Longrightarrow> truthy s"
  using find_holds [of "progressive q" ss s] propOf_defined_truthy [of s "''quality''"]
  by (simp add: progressive_def)

lemma find_audioVideo_truthy: "find audioVideo ss = Some s \<Longrightarrow> truthy s"
  using find_holds [of audioVideo ss s] propOf_defined_truthy [of s "''videoOnly''"]
  by (simp add: audioVideo_def)

lemma pickStream_hls:
  "\<not> isNullish d \<Longrightarrow> truthy (propOf d ''hls'') \<Longrightarrow> pickStream d = Inr (propOf d ''hls'')"
  by (simp add: pickStream_def getProp_def bindE_def)

lemma pickStream_variants:
  assumes "\<not> isNullish d" "\<not> truthy (propOf d ''hls'')"
    and "jsOr (propOf d ''videoStreams'') (JArr []) = JArr ss"
    and "list_all (\<lambda>s. \<not> isNullish s) ss"
  shows "pickStream d = Inr (case preferredVariant ss of Some s \<Rightarrow> propOf s ''url'' | None \<Rightarrow> JNull)"
proof -
  have f: "\<And>q. jsFind (isVariant q) (JArr ss) =
      Inr (case find (progressive q) ss of Some s \<Rightarrow> s | None \<Rightarrow> JUndefined)"
    using findE_total [of "isVariant _" "progressive _" ss] assms(4)
    by (simp add: jsFind_def isVariant_progressive)
  have g: "jsFind isAudioVideo (JArr ss) =
      Inr (case find audioVideo ss of Some s \<Rightarrow> s | None \<Rightarrow> JUndefined)"
    using findE_total [of isAudioVideo audioVideo ss] assms(4)
    by (simp add: jsFind_def isAudioVideo_audioVideo)
  show ?thesis
    using assms(1-3)
    by (auto simp: pickStream_def getProp_def bindE_def Let_def f g preferredVariant_def
        find_progressive_truthy find_audioVideo_truthy split: option.splits)
qed

lemma findE_prefix:
  assumes "\<And>s. \<not> isNullish s \<Longrightarrow> p s = Inr (q s)" and "\<And>s. isNullish s \<Longrightarrow> p s = Inl TypeError"
  shows "\<not> list_all (\<lambda>s. \<not> isNullish s) ss \<Longrightarrow>
         findE p ss = (case find q (takeWhile (\<lambda>s. \<not> isNullish s) ss) of
                         Some s \<Rightarrow> Inr s | None \<Rightarrow> Inl TypeError)"
  by (induction ss) (auto simp: assms bindE_def)

lemma isVariant_nullish: "isNullish s \<Longrightarrow> isVariant q s = Inl TypeError"
  by (simp add: isVariant_def getProp_def bindE_def)

lemma pickStream_nullish: "isNullish d \<Longrightarrow> pickStream d = Inl TypeError"
  by (simp add: pickStream_def getProp_def bindE_def)

lemma pickStream_not_array:
  "\<not> isNullish d \<Longrightarrow> \<not> truthy (propOf d ''hls'') \<Longrightarrow>
   (\<forall>ss. jsOr (propOf d ''videoStreams'') (JArr []) \<noteq> JArr ss) \<Longrightarrow> pickStream d = Inl TypeError"
  by (cases "jsOr (propOf d ''videoStreams'') (JArr [])")
     (simp_all add: pickStream_def getProp_def bindE_def Let_def jsFind_def)

lemma pickStream_null_entry:
  assumes "\<not> isNullish d" "\<not> truthy (propOf d ''hls'')"
    and "jsOr (propOf d ''videoStreams'') (JArr []) = JArr ss"
    and "\<not> list_all (\<lambda>s. \<not> isNullish s) ss"
  shows "(case pickStream d of Inr u \<Rightarrow> u | Inl e \<Rightarrow> JNull) =
         (case find (progressive ''1080p'') (takeWhile (\<lambda>s. \<not> isNullish s) ss) of
            Some s \<Rightarrow> propOf s ''url'' | None \<Rightarrow> JNull)"
proof -
  have f: "jsFind (isVariant ''1080p'') (JArr ss) =
      (case find (progressive ''1080p'') (takeWhile (\<lambda>s. \<not> isNullish s) ss) of
         Some s \<Rightarrow> Inr s | None \<Rightarrow> Inl TypeError)"
    using findE_prefix [of "isVariant ''1080p''" "progressive ''1080p''" ss] assms(4)
    by (simp add: jsFind_def isVariant_progressive isVariant_nullish)
  show ?thesis
    using assms(1-3)
    by (auto simp: pickStream_def getProp_def bindE_def Let_def f find_progressive_truthy
        split: option.splits)
qed

lemma fetchWithRotation_brokenStreamsWeb:
  "fetchWithRotation brokenStreamsWeb path world0 =
     (Inr brokenStreamsPayload, \<lparr>activeInstanceIndex = 0, trace = [Fetch (''https://pipedapi.kavin.rocks'' @ path)]\<rparr>)"
  by (simp add: rotation_unrolled Let_def nativeFetch_unfolded okBody_def brokenStreamsWeb_def offlineWeb_def world0_def PIPED_INSTANCES_def)

text \<open>
  C5, as the claim states it, fails on a stream list that holds \<^verbatim>\<open>null\<close>: with a
  720p audio+video variant followed by \<^verbatim>\<open>null\<close> and no adaptive stream, the scan for
  a 1080p variant reads \<^verbatim>\<open>null.quality\<close>, throws, and the answer is \<^verbatim>\<open>null\<close>
  although a variant qualifies.
\<close>

theorem null_entry_hides_720p:
  "getStreamUrl brokenStreamsWeb exampleMocks ''abc'' ''YouTube'' world0 =
     (Resolved JNull,
      \<lparr>activeInstanceIndex = 0, trace = [Fetch ''https://pipedapi.kavin.rocks/streams/abc'']\<rparr>)
   \<and> propOf brokenStreamsPayload ''hls'' = JUndefined
   \<and> propOf brokenStreamsPayload ''videoStreams'' = JArr [variant720, JNull]
   \<and> progressive ''720p'' variant720"
  by (simp add: getStreamUrl_def fetchWithRotation_brokenStreamsWeb pickStream_def
      brokenStreamsPayload_def variant720_def getProp_def isNullish_def bindE_def jsOr_def
      jsFind_def isVariant_def progressive_def)

text \<open>
  C5, amended. For the platform \<^verbatim>\<open>YouTube\<close>, \<open>getStreamUrl\<close> resolves in every case,
  in the state the rotated fetch of \<^verbatim>\<open>/streams/{id}\<close> leaves. It gives \<^verbatim>\<open>null\<close>
  when that fetch fails or its payload is \<^verbatim>\<open>null\<close> or \<^verbatim>\<open>undefined\<close>; the adaptive
  stream \<^verbatim>\<open>hls\<close> when the payload offers one; \<^verbatim>\<open>null\<close> when the stream list is a
  truthy value that is no array. On a stream list with no \<^verbatim>\<open>null\<close> or
  \<^verbatim>\<open>undefined\<close> entry it gives the URL of the first 1080p audio+video variant, else
  of the first 720p audio+video variant, else of the first variant that is not
  video-only, and \<^verbatim>\<open>null\<close> when there is none. On a stream list with such an entry
  it gives the URL of the first 1080p audio+video variant that stands before the first
  such entry, and \<^verbatim>\<open>null\<close> when there is none.
\<close>

theorem getStreamUrl_YouTube:
  assumes a: "fetchWithRotation env (''/streams/'' @ ident) w = (r, w')"
  shows "\<exists>u. getStreamUrl env c ident ''YouTube'' w = (Resolved u, w')
     \<and> (\<forall>e. r = Inl e \<longrightarrow> u = JNull)
     \<and> (\<forall>d. r = Inr d \<and> isNullish d \<longrightarrow> u = JNull)
     \<and> (\<forall>d. r = Inr d \<and> \<not> isNullish d \<and> truthy (propOf d ''hls'') \<longrightarrow> u = propOf d ''hls'')
     \<and> (\<forall>d. r = Inr d \<and> \<not> isNullish d \<and> \<not> truthy (propOf d ''hls'')
           \<and> (\<forall>ss. jsOr (propOf d ''videoStreams'') (JArr []) \<noteq> JArr ss)
         \<longrightarrow> u = JNull)
     \<and> (\<forall>d ss. r = Inr d \<and> \<not> isNullish d \<and> \<not> truthy (propOf d ''hls'')
           \<and> jsOr (propOf d ''videoStreams'') (JArr []) = JArr ss
           \<and> list_all (\<lambda>s. \<not> isNullish s) ss
         \<longrightarrow> u = (case preferredVariant ss of Some s \<Rightarrow> propOf s ''url'' | None \<Rightarrow> JNull))
     \<and> (\<forall>d ss. r = Inr d \<and> \<not> isNullish d \<and> \<not> truthy (propOf d ''hls'')
           \<and> jsOr (propOf d ''videoStreams'') (JArr []) = JArr ss
           \<and> \<not> list_all (\<lambda>s. \<not> isNullish s) ss
         \<longrightarrow> u = (case find (progressive ''1080p'') (takeWhile (\<lambda>s. \<not> isNullish s) ss) of
                    Some s \<Rightarrow> propOf s ''url'' | None \<Rightarrow> JNull))"
proof (cases r)
  case (Inl e)
  then show ?thesis using a by (auto simp: getStreamUrl_def)
next
  case (Inr d)
  have g: "getStreamUrl env c ident ''YouTube'' w =
      (Resolved (case pickStream d of Inr u \<Rightarrow> u | Inl e \<Rightarrow> JNull), w')"
    using a Inr by (simp add: getStreamUrl_def)
  show ?thesis
    unfolding g using Inr pickStream_null_entry [of d]
    by (auto simp: pickStream_nullish pickStream_hls pickStream_not_array pickStream_variants)
qed

lemma fetchWithRotation_streamsWeb:
  "fetchWithRotation streamsWeb path world0 =
     (Inr streamsPayload, \<lparr>activeInstanceIndex = 0, trace = [Fetch (''https://pipedapi.kavin.rocks'' @ path)]\<rparr>)"
  by (simp add: rotation_unrolled Let_def nativeFetch_unfolded okBody_def streamsWeb_def offlineWeb_def world0_def PIPED_INSTANCES_def)

text \<open>A payload that lists a 720p variant before a 1080p variant, both audio+video, and
  no adaptive stream: the answer is the 1080p URL.\<close>

theorem getStreamUrl_YouTube_witness:
  "getStreamUrl streamsWeb exampleMocks ''abc'' ''YouTube'' world0 =
     (Resolved (JStr ''https://e.x/1080''),
      \<lparr>activeInstanceIndex = 0, trace = [Fetch ''https://pipedapi.kavin.rocks/streams/abc'']\<rparr>)"
  using getStreamUrl_YouTube [OF fetchWithRotation_streamsWeb, of exampleMocks]
  by (auto simp: streamsPayload_def isNullish_def jsOr_def preferredVariant_def progressive_def)


lemma find_streamMocks:
  "find (\<lambda>v. id_v v = JStr ''r1'')
     (MOCK_TIKTOK_VIDEOS streamMocks @ MOCK_RUMBLE_VIDEOS streamMocks
        @ MOCK_PEERTUBE_VIDEOS streamMocks @ MOCK_VIDEOS streamMocks) =
     Some (mockVideo ''r1'' ''News'' (JStr ''https://e.x/r1.mp4''))"
  "find (\<lambda>v. id_v v = JStr ''p1'')
     (MOCK_TIKTOK_VIDEOS streamMocks @ MOCK_RUMBLE_VIDEOS streamMocks
        @ MOCK_PEERTUBE_VIDEOS streamMocks @ MOCK_VIDEOS streamMocks) =
     Some (mockVideo ''p1'' ''Talk'' (JStr ''https://e.x/p1.mp4''))"
  "find (\<lambda>v. id_v v = JStr ''g1'')
     (MOCK_TIKTOK_VIDEOS streamMocks @ MOCK_RUMBLE_VIDEOS streamMocks
        @ MOCK_PEERTUBE_VIDEOS streamMocks @ MOCK_VIDEOS streamMocks) =
     Some (mockVideo ''g1'' ''Film'' (JStr ''https://e.x/g1.mp4''))"
  "find (\<lambda>v. id_v v = JStr ''s1'')
     (MOCK_TIKTOK_VIDEOS streamMocks @ MOCK_RUMBLE_VIDEOS streamMocks
        @ MOCK_PEERTUBE_VIDEOS streamMocks @ MOCK_VIDEOS streamMocks) =
     Some (mockVideo ''s1'' ''Clip'' JUndefined)"
  "find (\<lambda>v. id_v v = JStr ''zz'')
     (MOCK_TIKTOK_VIDEOS streamMocks @ MOCK_RUMBLE_VIDEOS streamMocks
        @ MOCK_PEERTUBE_VIDEOS streamMocks @ MOCK_VIDEOS streamMocks) = None"
  by (simp_all add: streamMocks_def)

text \<open>
  C10, as the claim states it, fails when two mock sets share an id: \<^verbatim>\<open>s1\<close> stands in
  the TikTok set without a stream URL and in the generic set with one; the lookup stops at
  the first of the two and the answer is the sample URL, although a record with this id
  and a stream URL exists.
\<close>

theorem shared_id_gives_sample_url:
  "getStreamUrl offlineWeb streamMocks ''s1'' ''TikTok'' world0 = (Resolved (JStr SAMPLE_URL), world0)
   \<and> MOCK_VIDEOS streamMocks ! 1 = mockVideo ''s1'' ''Movie'' (JStr ''https://e.x/s1.mp4'')
   \<and> id_v (MOCK_VIDEOS streamMocks ! 1) = JStr ''s1''
   \<and> streamUrl (MOCK_VIDEOS streamMocks ! 1) = JStr ''https://e.x/s1.mp4''"
  by (simp add: getStreamUrl_def allMocks_def streamMocks_def)

text \<open>
  C10, amended. For every platform other than \<^verbatim>\<open>YouTube\<close>, recognized or not,
  \<open>getStreamUrl\<close> resolves without a request, and never with \<^verbatim>\<open>null\<close> or
  \<^verbatim>\<open>undefined\<close>: with the embed URL built from the id for \<^verbatim>\<open>Dailymotion\<close>;
  otherwise with the stream URL of the first record with this id in the TikTok, Rumble,
  PeerTube and generic mock sets, searched in this order, when there is such a record and
  it has a stream URL; and with the fixed sample URL when no record has this id or the
  first one that has it has no stream URL.
\<close>

theorem getStreamUrl_other_platforms:
  "provider \<noteq> ''YouTube'' \<Longrightarrow>
   \<exists>u. getStreamUrl env c ident provider w = (Resolved u, w)
     \<and> u \<noteq> JNull \<and> u \<noteq> JUndefined
     \<and> (provider = ''Dailymotion'' \<longrightarrow>
          u = JStr (''https://www.dailymotion.com/embed/video/'' @ ident @ ''?autoplay=1''))
     \<and> (provider \<noteq> ''Dailymotion'' \<longrightarrow>
          u = (case find (\<lambda>v. id_v v = JStr ident)
                      (MOCK_TIKTOK_VIDEOS c @ MOCK_RUMBLE_VIDEOS c
                         @ MOCK_PEERTUBE_VIDEOS c @ MOCK_VIDEOS c) of
                 Some m \<Rightarrow>
                   if truthy (streamUrl m) then streamUrl m
                   else JStr ''https://commondatastorage.googleapis.com/gtv-videos-bucket/sample/BigBuckBunny.mp4''
               | None \<Rightarrow>
                   JStr ''https://commondatastorage.googleapis.com/gtv-videos-bucket/sample/BigBuckBunny.mp4''))"
  by (auto simp: getStreamUrl_def allMocks_def SAMPLE_URL_def split: option.splits)

text \<open>A record with a stream URL in the Rumble, the PeerTube and the generic set, each
  asked for under another platform; a shared id whose first record has no stream URL; an
  id that no record has; and Dailymotion.\<close>

theorem getStreamUrl_other_platforms_witness:
  "getStreamUrl offlineWeb streamMocks ''r1'' ''TikTok'' world0 =
     (Resolved (JStr ''https://e.x/r1.mp4''), world0)
   \<and> getStreamUrl offlineWeb streamMocks ''p1'' ''Rumble'' world0 =
     (Resolved (JStr ''https://e.x/p1.mp4''), world0)
   \<and> getStreamUrl offlineWeb streamMocks ''g1'' ''Odysee'' world0 =
     (Resolved (JStr ''https://e.x/g1.mp4''), world0)
   \<and> getStreamUrl offlineWeb streamMocks ''s1'' ''PeerTube'' world0 =
     (Resolved (JStr ''https://commondatastorage.googleapis.com/gtv-videos-bucket/sample/BigBuckBunny.mp4''), world0)
   \<and> getStreamUrl offlineWeb streamMocks ''zz'' ''Bandcamp'' world0 =
     (Resolved (JStr ''https://commondatastorage.googleapis.com/gtv-videos-bucket/sample/BigBuckBunny.mp4''), world0)
   \<and> getStreamUrl offlineWeb streamMocks ''x9'' ''Dailymotion'' world0 =
       (Resolved (JStr ''https://www.dailymotion.com/embed/video/x9?autoplay=1''), world0)"
proof -
  have a: "getStreamUrl offlineWeb streamMocks ''r1'' ''TikTok'' world0 =
      (Resolved (JStr ''https://e.x/r1.mp4''), world0)"
    using getStreamUrl_other_platforms [of "''TikTok''" offlineWeb streamMocks "''r1''" world0]
    by (clarsimp simp: find_streamMocks)
  have b: "getStreamUrl offlineWeb streamMocks ''p1'' ''Rumble'' world0 =
      (Resolved (JStr ''https://e.x/p1.mp4''), world0)"
    using getStreamUrl_other_platforms [of "''Rumble''" offlineWeb streamMocks "''p1''" world0]
    by (clarsimp simp: find_streamMocks)
  have c: "getStreamUrl offlineWeb streamMocks ''g1'' ''Odysee'' world0 =
      (Resolved (JStr ''https://e.x/g1.mp4''), world0)"
    using getStreamUrl_other_platforms [of "''Odysee''" offlineWeb streamMocks "''g1''" world0]
    by (clarsimp simp: find_streamMocks)
  have d: "getStreamUrl offlineWeb streamMocks ''s1'' ''PeerTube'' world0 =
      (Resolved (JStr ''https://commondatastorage.googleapis.com/gtv-videos-bucket/sample/BigBuckBunny.mp4''), world0)"
    using getStreamUrl_other_platforms [of "''PeerTube''" offlineWeb streamMocks "''s1''" world0]
    by (clarsimp simp: find_streamMocks)
  have e: "getStreamUrl offlineWeb streamMocks ''zz'' ''Bandcamp'' world0 =
      (Resolved (JStr ''https://commondatastorage.googleapis.com/gtv-videos-bucket/sample/BigBuckBunny.mp4''), world0)"
    using getStreamUrl_other_platforms [of "''Bandcamp''" offlineWeb streamMocks "''zz''" world0]
    by (clarsimp simp: find_streamMocks)
  have f: "getStreamUrl offlineWeb streamMocks ''x9'' ''Dailymotion'' world0 =
      (Resolved (JStr ''https://www.dailymotion.com/embed/video/x9?autoplay=1''), world0)"
    using getStreamUrl_other_platforms [of "''Dailymotion''" offlineWeb streamMocks "''x9''" world0]
    by clarsimp
  show ?thesis using a b c d e f by simp
qed

section \<open>Properties of the mock-backed paths\<close>

lemma filterE_typed:
  "stringTitles vs \<Longrightarrow> filterE (titleIncludes query) vs = Inr (filter (matchesTitle query) vs)"
  by (induction vs) (auto simp: stringTitles_def titleIncludes_def matchesTitle_def bindE_def split: jsval.splits)

lemma filterE_typed_short:
  "stringTitles vs \<Longrightarrow>
   filterE (\<lambda>v. bindE (titleIncludes query v) (\<lambda>b. Inr (b \<or> length query < 3))) vs =
     Inr (filter (\<lambda>v. matchesTitle query v \<or> length query < 3) vs)"
  by (induction vs) (auto simp: stringTitles_def titleIncludes_def matchesTitle_def bindE_def split: jsval.splits)

text \<open>
  C9. For a provider outside \<^verbatim>\<open>YouTube\<close>, \<^verbatim>\<open>All\<close>, \<^verbatim>\<open>Dailymotion\<close>,
  \<^verbatim>\<open>PeerTube\<close>, \<^verbatim>\<open>TikTok\<close>, \<^verbatim>\<open>Rumble\<close> and \<^verbatim>\<open>Bandcamp\<close>, \<open>getTrending\<close>
  resolves with the generic mock set as it is, and \<open>search\<close> with the records of the
  generic mock set whose title contains the query, case ignored: a short query is
  filtered like any other and an empty result stays empty. Neither makes a request.
\<close>

theorem unrecognized_provider:
  "provider \<notin> {''YouTube'', ''All'', ''Dailymotion'', ''PeerTube'', ''TikTok'', ''Rumble'', ''Bandcamp''} \<Longrightarrow>
   getTrending env c provider country w = (Resolved (MOCK_VIDEOS c), w)
   \<and> (stringTitles (MOCK_VIDEOS c) \<longrightarrow>
        search env c query provider w = (Resolved (filter (matchesTitle query) (MOCK_VIDEOS c)), w))"
  by (auto simp: getTrending_def getTrendingTry_def search_def searchTry_def filterE_typed)

lemma lower_CAT: "toLowerCase ''CAT'' = ''cat''"
  by (simp add: toLowerCase_def lowerChar_def)

lemma lower_Cat_video: "toLowerCase ''Cat video'' = ''cat video''"
  by (simp add: toLowerCase_def lowerChar_def)

lemma lower_Dog: "toLowerCase ''Dog'' = ''dog''"
  by (simp add: toLowerCase_def lowerChar_def)

lemma lower_zz: "toLowerCase ''zz'' = ''zz''"
  by (simp add: toLowerCase_def lowerChar_def)

text \<open>An unknown provider: the trending set, a query in capitals that matches one
  title, and a query of two characters that matches none.\<close>

theorem unrecognized_provider_witness:
  "getTrending offlineWeb exampleMocks ''Odysee'' None world0 = (Resolved (MOCK_VIDEOS exampleMocks), world0)
   \<and> search offlineWeb exampleMocks ''CAT'' ''Odysee'' world0 =
       (Resolved [mockVideo ''g1'' ''Cat video'' JUndefined], world0)
   \<and> search offlineWeb exampleMocks ''zz'' ''Odysee'' world0 = (Resolved [], world0)"
proof -
  have t: "stringTitles (MOCK_VIDEOS exampleMocks)"
    using typedMocks_exampleMocks by (simp add: typedMocks_def)
  have f1: "filter (matchesTitle ''CAT'') (MOCK_VIDEOS exampleMocks) = [mockVideo ''g1'' ''Cat video'' JUndefined]"
    by (simp add: exampleMocks_def matchesTitle_def lower_CAT lower_Cat_video lower_Dog)
  have f2: "filter (matchesTitle ''zz'') (MOCK_VIDEOS exampleMocks) = []"
    by (simp add: exampleMocks_def matchesTitle_def lower_zz lower_Cat_video lower_Dog)
  show ?thesis
    using unrecognized_provider [of "''Odysee''" offlineWeb exampleMocks None world0 "''CAT''"]
      unrecognized_provider [of "''Odysee''" offlineWeb exampleMocks None world0 "''zz''"] t
    by (simp add: f1 f2)
qed

text \<open>
  C3, as the claim states it, fails on a query of three or more characters that no
  title contains: the live path of \<^verbatim>\<open>TikTok\<close> returns the empty sequence, not the
  unfiltered mock set. The fallback to the unfiltered set stands in the \<^verbatim>\<open>catch\<close>
  block only, which the mock-backed branches never reach.
\<close>

theorem no_match_gives_empty:
  "search offlineWeb exampleMocks ''xyz_no_match_query'' ''TikTok'' world0 = (Resolved [], world0)
   \<and> MOCK_TIKTOK_VIDEOS exampleMocks =
       [mockVideo ''t1'' ''Dance'' (JStr ''https://e.x/t1.mp4''), mockVideo ''t2'' ''Song'' JUndefined]"
  by (simp add: search_def searchTry_def exampleMocks_def titleIncludes_def bindE_def
      toLowerCase_def lowerChar_def)

text \<open>
  C3, amended. For \<^verbatim>\<open>TikTok\<close> and \<^verbatim>\<open>Rumble\<close>, \<open>search\<close> makes no request and
  resolves with the whole mock set of the provider when the query has fewer than three
  characters, and otherwise with the records of that set whose title contains the query,
  case ignored, which may be none.
\<close>

theorem search_mock_backed:
  "(stringTitles (MOCK_TIKTOK_VIDEOS c) \<longrightarrow>
      search env c query ''TikTok'' w =
        (Resolved (if length query < 3 then MOCK_TIKTOK_VIDEOS c
                   else filter (matchesTitle query) (MOCK_TIKTOK_VIDEOS c)), w))
   \<and> (stringTitles (MOCK_RUMBLE_VIDEOS c) \<longrightarrow>
      search env c query ''Rumble'' w =
        (Resolved (if length query < 3 then MOCK_RUMBLE_VIDEOS c
                   else filter (matchesTitle query) (MOCK_RUMBLE_VIDEOS c)), w))"
  by (simp add: search_def searchTry_def filterE_typed_short)

lemma lower_examples:
  "toLowerCase ''DAN'' = ''dan''" "toLowerCase ''Dance'' = ''dance''"
  "toLowerCase ''Song'' = ''song''" "toLowerCase ''News'' = ''news''"
  "toLowerCase ''new'' = ''new''" "toLowerCase ''q'' = ''q''"
  "toLowerCase ''xyz_no_match_query'' = ''xyz_no_match_query''"
  by (simp_all add: toLowerCase_def lowerChar_def)

text \<open>TikTok: a query in capitals that matches one title, a query of two characters,
  and a long query that matches nothing. Rumble: a query that matches, and a query of
  one character.\<close>

theorem search_mock_backed_witness:
  "search offlineWeb exampleMocks ''DAN'' ''TikTok'' world0 =
     (Resolved [mockVideo ''t1'' ''Dance'' (JStr ''https://e.x/t1.mp4'')], world0)
   \<and> search offlineWeb exampleMocks ''zz'' ''TikTok'' world0 =
     (Resolved [mockVideo ''t1'' ''Dance'' (JStr ''https://e.x/t1.mp4''),
                mockVideo ''t2'' ''Song'' JUndefined], world0)
   \<and> search offlineWeb exampleMocks ''xyz_no_match_query'' ''TikTok'' world0 = (Resolved [], world0)
   \<and> search offlineWeb exampleMocks ''new'' ''Rumble'' world0 =
     (Resolved [mockVideo ''r1'' ''News'' JUndefined], world0)
   \<and> search offlineWeb exampleMocks ''q'' ''Rumble'' world0 =
     (Resolved [mockVideo ''r1'' ''News'' JUndefined], world0)"
proof -
  have t: "stringTitles (MOCK_TIKTOK_VIDEOS exampleMocks)" "stringTitles (MOCK_RUMBLE_VIDEOS exampleMocks)"
    using typedMocks_exampleMocks by (simp_all add: typedMocks_def)
  have m: "MOCK_TIKTOK_VIDEOS exampleMocks =
      [mockVideo ''t1'' ''Dance'' (JStr ''https://e.x/t1.mp4''), mockVideo ''t2'' ''Song'' JUndefined]"
    "MOCK_RUMBLE_VIDEOS exampleMocks = [mockVideo ''r1'' ''News'' JUndefined]"
    by (simp_all add: exampleMocks_def)
  have f1: "filter (matchesTitle ''DAN'') (MOCK_TIKTOK_VIDEOS exampleMocks) =
      [mockVideo ''t1'' ''Dance'' (JStr ''https://e.x/t1.mp4'')]"
    by (simp add: m matchesTitle_def lower_examples)
  have f2: "filter (matchesTitle ''xyz_no_match_query'') (MOCK_TIKTOK_VIDEOS exampleMocks) = []"
    by (simp add: m matchesTitle_def lower_examples)
  have f3: "filter (matchesTitle ''new'') (MOCK_RUMBLE_VIDEOS exampleMocks) =
      [mockVideo ''r1'' ''News'' JUndefined]"
    by (simp add: m matchesTitle_def lower_examples)
  have a: "search offlineWeb exampleMocks ''DAN'' ''TikTok'' world0 =
     (Resolved [mockVideo ''t1'' ''Dance'' (JStr ''https://e.x/t1.mp4'')], world0)"
    using search_mock_backed [of exampleMocks offlineWeb "''DAN''" world0] t by (simp add: f1)
  have b: "search offlineWeb exampleMocks ''zz'' ''TikTok'' world0 =
     (Resolved [mockVideo ''t1'' ''Dance'' (JStr ''https://e.x/t1.mp4''),
                mockVideo ''t2'' ''Song'' JUndefined], world0)"
    using search_mock_backed [of exampleMocks offlineWeb "''zz''" world0] t by (simp add: m)
  have c: "search offlineWeb exampleMocks ''xyz_no_match_query'' ''TikTok'' world0 = (Resolved [], world0)"
    using search_mock_backed [of exampleMocks offlineWeb "''xyz_no_match_query''" world0] t
    by (simp add: f2)
  have d: "search offlineWeb exampleMocks ''new'' ''Rumble'' world0 =
     (Resolved [mockVideo ''r1'' ''News'' JUndefined], world0)"
    using search_mock_backed [of exampleMocks offlineWeb "''new''" world0] t by (simp add: f3)
  have e: "search offlineWeb exampleMocks ''q'' ''Rumble'' world0 =
     (Resolved [mockVideo ''r1'' ''News'' JUndefined], world0)"
    using search_mock_backed [of exampleMocks offlineWeb "''q''" world0] t by (simp add: m)
  show ?thesis using a b c d e by simp
qed

section \<open>Properties of the fallback policy\<close>






















section \<open>Properties of the normalizers\<close>
























end
